theory Spec2Isabelle
  imports Main "HOL-Library.Sublist"
begin

section \<open>Tokens, descriptors and collaborators\<close>

text \<open>
  The rewriter of \<^verbatim>\<open>add_trailing_comma/_main.py\<close> works on the token list of
  \<^verbatim>\<open>tokenize_rt\<close>: a token has a kind (\<open>name\<close>), its exact text (\<open>src\<close>) and its
  position. Tokens built by the program itself
  (\<^verbatim>\<open>Token('UNIMPORTANT_WS', '\n')\<close>) carry no position.
  A Python text is a \<open>string\<close>; one \<open>char\<close> stands for one code point below 256.
\<close>

record token =
  name :: string
  src :: string
  line :: "nat option"
  utf8_byte_offset :: "nat option"

type_synonym offset = "nat option \<times> nat option"

definition offset :: "token \<Rightarrow> offset" where
  "offset t = (line t, utf8_byte_offset t)"

definition Token :: "string \<Rightarrow> string \<Rightarrow> token" where
  "Token n s = \<lparr>name = n, src = s, line = None, utf8_byte_offset = None\<rparr>"

text \<open>
  The descriptor \<^verbatim>\<open>Fix\<close> is declared in \<^verbatim>\<open>_token_helpers.py\<close>, which is not among
  the source files. \<^verbatim>\<open>_main.py\<close> reads its fields \<^verbatim>\<open>braces\<close> and \<^verbatim>\<open>multi_arg\<close>;
  \<open>is_multiline\<close> is the field of the same name of the specification's descriptor.
\<close>

record Fix =
  braces :: "nat \<times> nat"
  multi_arg :: bool
  is_multiline :: bool

type_synonym callback = "nat \<Rightarrow> token list \<Rightarrow> token list"

text \<open>
  The collaborators that \<^verbatim>\<open>_main.py\<close> imports and that are not among the source
  files are parameters of the model:
  \<^item> \<open>ast_parse\<close>: the parser; \<open>None\<close> stands for \<^verbatim>\<open>SyntaxError\<close>;
  \<^item> \<open>visit\<close>: \<^verbatim>\<open>visit(FUNCS, ast_obj)\<close>, the callbacks registered per offset
    (the empty list where the dictionary has no entry);
  \<^item> \<open>src_to_tokens\<close>: the tokenizer of \<^verbatim>\<open>tokenize_rt\<close>;
  \<^item> \<open>find_simple\<close> and \<open>fix_brace\<close> of \<^verbatim>\<open>_token_helpers.py\<close>; a callback and
    \<open>fix_brace\<close> mutate the token list, which the model returns;
  \<^item> \<open>decode\<close> and \<open>encode\<close>: \<^verbatim>\<open>bytes.decode()\<close> and \<^verbatim>\<open>str.encode()\<close>;
    \<open>None\<close> stands for \<^verbatim>\<open>UnicodeDecodeError\<close>.
\<close>

record 'ast env =
  ast_parse :: "string \<Rightarrow> 'ast option"
  visit :: "'ast \<Rightarrow> offset \<Rightarrow> callback list"
  src_to_tokens :: "string \<Rightarrow> token list"
  find_simple :: "nat \<Rightarrow> token list \<Rightarrow> Fix option"
  fix_brace :: "token list \<Rightarrow> Fix option \<Rightarrow> bool \<Rightarrow> bool \<Rightarrow> token list"
  decode :: "nat list \<Rightarrow> string option"
  encode :: "string \<Rightarrow> nat list"

text \<open>\<^verbatim>\<open>tokens_to_src\<close> of \<^verbatim>\<open>tokenize_rt\<close> joins the texts of the tokens.\<close>

definition tokens_to_src :: "token list \<Rightarrow> string" where
  "tokens_to_src tokens = concat (map src tokens)"

text \<open>
  Modelled from the spec: \<^verbatim>\<open>START_BRACES\<close> of \<^verbatim>\<open>_token_helpers.py\<close>, the opening
  parenthesis, brace and bracket.
\<close>

definition START_BRACES :: "string set" where
  "START_BRACES = {''('', ''{'', ''[''}"

subsection \<open>Python indexing\<close>

datatype error = IndexError | OSError

text \<open>\<^verbatim>\<open>xs[k]\<close>: a negative index counts from the end, an index out of range raises.\<close>

definition py_index :: "'a list \<Rightarrow> int \<Rightarrow> error + 'a" where
  "py_index xs k =
     (if 0 \<le> k \<and> k < int (length xs) then Inr (xs ! nat k)
      else if k < 0 \<and> - int (length xs) \<le> k then Inr (xs ! nat (int (length xs) + k))
      else Inl IndexError)"

definition py_assign :: "'a list \<Rightarrow> int \<Rightarrow> 'a \<Rightarrow> error + 'a list" where
  "py_assign xs k v =
     (if 0 \<le> k \<and> k < int (length xs) then Inr (xs[nat k := v])
      else if k < 0 \<and> - int (length xs) \<le> k then Inr (xs[nat (int (length xs) + k) := v])
      else Inl IndexError)"

text \<open>\<open>at xs k\<close> is \<^verbatim>\<open>xs[k]\<close> for an index that is not negative.\<close>

definition at :: "'a list \<Rightarrow> nat \<Rightarrow> error + 'a" where
  "at xs k = (if k < length xs then Inr (xs ! k) else Inl IndexError)"

section \<open>The skip patterns\<close>

text \<open>
  The nine patterns of \<^verbatim>\<open>_should_skip_adding_comma\<close> are built from literal text,
  \<^verbatim>\<open>\s+\<close> and \<^verbatim>\<open>[\s\n]+\<close> only; the last two denote the same language, one or more
  white-space characters. \<open>rx_match\<close> decides whether a pattern matches a prefix of the
  text (trying every length of a white-space run, as the backtracking matcher does), and
  \<open>re_search\<close> whether it matches anywhere, which is \<^verbatim>\<open>re.search(pattern, src, re.DOTALL)\<close>
  read as a truth value.
\<close>

datatype rx = Lit string | Spaces

text \<open>The characters below 256 that \<^verbatim>\<open>\s\<close> matches in a \<^verbatim>\<open>str\<close> pattern.\<close>

definition is_space :: "char \<Rightarrow> bool" where
  "is_space c \<longleftrightarrow>
     c \<in> {CHR 0x09, CHR 0x0A, CHR 0x0B, CHR 0x0C, CHR 0x0D, CHR 0x1C, CHR 0x1D, CHR 0x1E,
          CHR 0x1F, CHR 0x20, CHR 0x85, CHR 0xA0}"

fun rx_match :: "rx list \<Rightarrow> string \<Rightarrow> bool" where
  "rx_match [] s = True"
| "rx_match (Lit l # r) s = (if prefix l s then rx_match r (drop (length l) s) else False)"
| "rx_match (Spaces # r) [] = False"
| "rx_match (Spaces # r) (c # s) =
     (if is_space c then (if rx_match (Spaces # r) s then True else rx_match r s) else False)"

fun re_search :: "rx list \<Rightarrow> string \<Rightarrow> bool" where
  "re_search p [] = rx_match p []"
| "re_search p (c # s) = (if rx_match p (c # s) then True else re_search p s)"

definition test_patterns :: "rx list list" where
  \<open>test_patterns =
    [ [Lit ''tuple('', Lit ''\<newline>'', Spaces, Lit ''a for a in b'', Lit ''\<newline>'', Lit '')''],
      [Lit ''('', Lit ''\<newline>'', Spaces, Lit ''a'', Lit ''\<newline>'', Lit '').f(b)''],
      [Lit ''x = ('', Lit ''\<newline>'', Spaces, Lit ''f" {test(t)}"'', Lit ''\<newline>'', Lit '')''],
      [Lit ''x = ('', Lit ''\<newline>'', Spaces, Lit ''object'', Lit ''\<newline>'', Lit ''), object''],
      [Lit ''with ('', Lit ''\<newline>'', Spaces, Lit ''open("wat")'', Lit ''\<newline>'', Lit '') as f''],
      [Lit ''x = ("foo"'', Spaces, Lit ''"bar")''],
      [Lit ''[a()'', Spaces, Lit ''for b in c'', Spaces, Lit ''if ('', Spaces, Lit ''d'',
       Spaces, Lit '')'', Spaces, Lit '']''],
      [Lit ''x = [x'', Spaces, Lit ''for x in y()]''],
      [Lit ''x = ('', Lit ''\<newline>'', Spaces, Lit ''"foo"'', Lit ''\<newline>'', Spaces, Lit ''"bar"'',
       Lit ''\<newline>'', Spaces, Lit '')''] ]\<close>

definition should_skip_adding_comma :: "string \<Rightarrow> Fix option \<Rightarrow> bool" where
  "should_skip_adding_comma contents_text fix_data =
     (case fix_data of
        None \<Rightarrow> True
      | Some fd \<Rightarrow> list_ex (\<lambda>pattern. re_search pattern contents_text) test_patterns)"

section \<open>The rewriter of \<^verbatim>\<open>_main.py\<close>\<close>

subsection \<open>\<^verbatim>\<open>_fix_unhugged_brace\<close>\<close>

text \<open>
  A descriptor is a named tuple and so always true; \<^verbatim>\<open>not fix_data\<close> holds of \<open>None\<close>
  only. \<^verbatim>\<open>tokens[last_brace - 1]\<close> is Python indexing: it raises out of range and
  reads the last token when \<^verbatim>\<open>last_brace\<close> is 0.
\<close>

definition fix_unhugged_brace :: "nat \<Rightarrow> token list \<Rightarrow> Fix option \<Rightarrow> error + token list" where
  "fix_unhugged_brace i tokens fix_data =
     (case fix_data of
        None \<Rightarrow> Inr tokens
      | Some fd \<Rightarrow>
          if \<not> multi_arg fd then Inr tokens
          else
            (case py_index tokens (int (snd (braces fd)) - 1) of
               Inl e \<Rightarrow> Inl e
             | Inr t \<Rightarrow>
                 if name t \<in> {''UNIMPORTANT_WS'', ''NL''}
                 then py_assign tokens (int (snd (braces fd)) - 1)
                        (Token ''UNIMPORTANT_WS'' ''\<newline>'')
                 else Inr tokens))"

subsection \<open>\<^verbatim>\<open>_is_single_element_tuple\<close>\<close>

text \<open>
  The inner loop of the argument count: from \<open>j\<close>, pass every token that is white space
  or is not a comma, below \<open>last_brace\<close>.
\<close>

function skip_to_comma :: "token list \<Rightarrow> nat \<Rightarrow> nat \<Rightarrow> error + nat" where
  "skip_to_comma tokens last_brace j =
     (if j < last_brace then
        (case at tokens j of
           Inl e \<Rightarrow> Inl e
         | Inr t \<Rightarrow>
             if name t \<in> {''UNIMPORTANT_WS'', ''NL''} \<or> src t \<noteq> '',''
             then skip_to_comma tokens last_brace (Suc j)
             else Inr j)
      else Inr j)"
  by pat_completeness auto
termination
  by (relation "measure (\<lambda>(tokens, last_brace, j). last_brace - j)") auto

lemma skip_to_comma_ge: "skip_to_comma tokens last_brace j = Inr j' \<Longrightarrow> j \<le> j'"
proof (induction tokens last_brace j rule: skip_to_comma.induct)
  case (1 tokens last_brace j)
  show ?case
  proof (cases "j < last_brace")
    case False
    with "1.prems" show ?thesis by simp
  next
    case True
    show ?thesis
    proof (cases "at tokens j")
      case (Inl e)
      with True "1.prems" show ?thesis by simp
    next
      case (Inr t)
      show ?thesis
      proof (cases "name t \<in> {''UNIMPORTANT_WS'', ''NL''} \<or> src t \<noteq> '',''")
        case True
        with \<open>j < last_brace\<close> Inr "1.prems"
        have "skip_to_comma tokens last_brace (Suc j) = Inr j'" by simp
        with "1.IH" [OF \<open>j < last_brace\<close> Inr True] show ?thesis by simp
      next
        case False
        with \<open>j < last_brace\<close> Inr "1.prems" show ?thesis by simp
      qed
    qed
  qed
qed

declare skip_to_comma.simps [simp del]

text \<open>The outer loop: \<open>n\<close> is \<^verbatim>\<open>arg_count\<close>.\<close>

function count_args :: "token list \<Rightarrow> nat \<Rightarrow> nat \<Rightarrow> nat \<Rightarrow> error + nat" where
  "count_args tokens last_brace j n =
     (if j < last_brace then
        (case at tokens j of
           Inl e \<Rightarrow> Inl e
         | Inr t \<Rightarrow>
             if name t \<in> {''NAME'', ''NUMBER'', ''STRING''} then
               (case skip_to_comma tokens last_brace (Suc j) of
                  Inl e \<Rightarrow> Inl e
                | Inr j' \<Rightarrow>
                    if j' < last_brace then
                      (case at tokens j' of
                         Inl e \<Rightarrow> Inl e
                       | Inr t' \<Rightarrow>
                           if src t' = '','' then count_args tokens last_brace (Suc j') (Suc n)
                           else count_args tokens last_brace j' (Suc n))
                    else count_args tokens last_brace j' (Suc n))
             else count_args tokens last_brace (Suc j) n)
      else Inr n)"
  by pat_completeness auto
termination
proof (relation "measure (\<lambda>(tokens, last_brace, j, n). last_brace - j)")
  fix tokens :: "token list" and last_brace j j' :: nat
  assume "j < last_brace" and "skip_to_comma tokens last_brace (Suc j) = Inr j'"
  then have "j < j'" using skip_to_comma_ge [of tokens last_brace "Suc j" j'] by simp
  with \<open>j < last_brace\<close> show "((tokens, last_brace, j', Suc n), tokens, last_brace, j, n)
      \<in> measure (\<lambda>(tokens, last_brace, j, n). last_brace - j)" for n
    by simp
  show "((tokens, last_brace, j', Suc n), tokens, last_brace, j, n)
      \<in> measure (\<lambda>(tokens, last_brace, j, n). last_brace - j)" for n
    using \<open>j < j'\<close> \<open>j < last_brace\<close> by simp
  assume "j' < last_brace"
  with \<open>j < j'\<close> show "((tokens, last_brace, Suc j', Suc n), tokens, last_brace, j, n)
      \<in> measure (\<lambda>(tokens, last_brace, j, n). last_brace - j)" for n
    by simp
qed auto

text \<open>
  The scan for the token before the opening bracket: \<open>scan_back tokens (k + 1)\<close> is the
  loop started at \<open>k\<close>; \<open>None\<close> is the exit with \<^verbatim>\<open>k < 0\<close>.
\<close>

fun scan_back :: "token list \<Rightarrow> nat \<Rightarrow> error + nat option" where
  "scan_back tokens 0 = Inr None"
| "scan_back tokens (Suc k) =
     (case at tokens k of
        Inl e \<Rightarrow> Inl e
      | Inr t \<Rightarrow>
          if name t \<in> {''UNIMPORTANT_WS'', ''NL''} then scan_back tokens k
          else Inr (Some k))"

definition tuple_operator_contexts :: "string set" where
  "tuple_operator_contexts =
     {''='', ''+='', ''-='', ''*='', ''/='', ''%='', ''//='', ''**='',
      ''&='', ''|='', ''^='', ''>>='', ''<<='', ''return'', '','', ''[''}"

definition is_tuple_context :: "token list \<Rightarrow> nat \<Rightarrow> bool" where
  "is_tuple_context tokens k \<longleftrightarrow> src (tokens ! k) \<in> tuple_operator_contexts"

definition is_import_context :: "token list \<Rightarrow> nat \<Rightarrow> bool" where
  "is_import_context tokens k \<longleftrightarrow>
     src (tokens ! k) = ''import'' \<or>
     (k > 0 \<and> src (tokens ! k) = ''from'' \<and> src (tokens ! (k - 1)) = ''import'')"

definition is_function_context :: "token list \<Rightarrow> nat \<Rightarrow> bool" where
  "is_function_context tokens k \<longleftrightarrow>
     src (tokens ! k) = ''def'' \<or> (k > 0 \<and> src (tokens ! (k - 1)) = ''def'')"

text \<open>
  The three context tests read \<^verbatim>\<open>tokens[k]\<close> and \<^verbatim>\<open>tokens[k - 1]\<close> at an index
  that \<open>scan_back\<close> has read before, so they cannot raise.
\<close>

definition is_single_element_tuple :: "token list \<Rightarrow> nat \<Rightarrow> nat \<Rightarrow> error + bool" where
  "is_single_element_tuple tokens i last_brace =
     (case count_args tokens last_brace (Suc i) 0 of
        Inl e \<Rightarrow> Inl e
      | Inr arg_count \<Rightarrow>
          if arg_count \<noteq> 1 then Inr False
          else
            (case at tokens i of
               Inl e \<Rightarrow> Inl e
             | Inr t \<Rightarrow>
                 if src t \<noteq> ''('' then Inr False
                 else
                   (case scan_back tokens i of
                      Inl e \<Rightarrow> Inl e
                    | Inr None \<Rightarrow> Inr False
                    | Inr (Some k) \<Rightarrow>
                        Inr (is_tuple_context tokens k \<and> \<not> is_import_context tokens k
                             \<and> \<not> is_function_context tokens k))))"

declare count_args.simps [simp del]

subsection \<open>The pass over the token list\<close>

text \<open>
  \<^verbatim>\<open>_changing_list\<close> yields \<open>i\<close> and \<^verbatim>\<open>lst[i]\<close> while \<open>i\<close> is below the current
  length of the list, which the body of the loop mutates. The pass need not end when
  the body lengthens the list, so the loop is a partial function: \<open>None\<close> is a pass that
  does not return, \<open>Some (Inl e)\<close> one that raises.
\<close>

partial_function (option) changing_list ::
  "(nat \<Rightarrow> token \<Rightarrow> token list \<Rightarrow> error + token list) \<Rightarrow> nat \<Rightarrow> token list
     \<Rightarrow> (error + token list) option" where
  "changing_list body i lst =
     (if i < length lst then
        (case body i (lst ! i) lst of
           Inl e \<Rightarrow> Some (Inl e)
         | Inr lst' \<Rightarrow> changing_list body (Suc i) lst')
      else Some (Inr lst))"

declare changing_list.simps [code]

definition run_callbacks :: "callback list \<Rightarrow> nat \<Rightarrow> token list \<Rightarrow> token list" where
  "run_callbacks cbs i tokens = fold (\<lambda>cb ts. cb i ts) cbs tokens"

definition render :: "(error + token list) option \<Rightarrow> (error + string) option" where
  "render r = map_option (map_sum id tokens_to_src) r"

subsection \<open>\<^verbatim>\<open>_remove_trailing_commas\<close>\<close>

text \<open>
  The walk from \<^verbatim>\<open>last_brace - 1\<close> back over white space, above \<open>i\<close>
  (\<open>walk_back tokens i j\<close> is the loop started at \<open>j\<close>).
\<close>

fun walk_back :: "token list \<Rightarrow> nat \<Rightarrow> nat \<Rightarrow> error + nat" where
  "walk_back tokens i 0 = Inr 0"
| "walk_back tokens i (Suc j) =
     (if Suc j > i then
        (case at tokens (Suc j) of
           Inl e \<Rightarrow> Inl e
         | Inr t \<Rightarrow>
             if name t \<in> {''UNIMPORTANT_WS'', ''NL''} then walk_back tokens i j
             else Inr (Suc j))
      else Inr (Suc j))"

text \<open>
  Lines 164 to 171: find the comma before the closing bracket and delete it. With
  \<^verbatim>\<open>last_brace\<close> 0 the walk starts at -1, which is not above \<open>i\<close>: nothing is read
  and nothing deleted.
\<close>

definition delete_trailing_comma :: "token list \<Rightarrow> nat \<Rightarrow> nat \<Rightarrow> error + token list" where
  "delete_trailing_comma tokens i last_brace =
     (if last_brace = 0 then Inr tokens
      else
        (case walk_back tokens i (last_brace - 1) of
           Inl e \<Rightarrow> Inl e
         | Inr j \<Rightarrow>
             if j > i then
               (case at tokens j of
                  Inl e \<Rightarrow> Inl e
                | Inr t \<Rightarrow>
                    if src t = '','' then Inr (take j tokens @ drop (Suc j) tokens)
                    else Inr tokens)
             else Inr tokens))"

text \<open>Lines 155 to 174, what the pass does at an opening bracket.\<close>

definition remove_region :: "'ast env \<Rightarrow> string \<Rightarrow> nat \<Rightarrow> token list \<Rightarrow> error + token list" where
  "remove_region E contents_text i tokens =
     (case find_simple E i tokens of
        None \<Rightarrow> fix_unhugged_brace i tokens None
      | Some fd \<Rightarrow>
          if multi_arg fd \<and> \<not> should_skip_adding_comma contents_text (Some fd) then
            (case is_single_element_tuple tokens i (snd (braces fd)) of
               Inl e \<Rightarrow> Inl e
             | Inr True \<Rightarrow> Inr tokens
             | Inr False \<Rightarrow>
                 (case delete_trailing_comma tokens i (snd (braces fd)) of
                    Inl e \<Rightarrow> Inl e
                  | Inr tokens' \<Rightarrow> fix_unhugged_brace i tokens' (Some fd)))
          else fix_unhugged_brace i tokens (Some fd))"

text \<open>
  The body of the loop: \<open>tok\<close> is the token the loop yielded, read before the callbacks
  ran.
\<close>

definition remove_body ::
  "'ast env \<Rightarrow> string \<Rightarrow> (offset \<Rightarrow> callback list) \<Rightarrow> nat \<Rightarrow> token \<Rightarrow> token list
     \<Rightarrow> error + token list" where
  "remove_body E contents_text callbacks i tok tokens =
     (if src tok = [] then Inr tokens
      else if name tok = ''OP'' \<and> src tok \<in> START_BRACES
      then remove_region E contents_text i (run_callbacks (callbacks (offset tok)) i tokens)
      else Inr (run_callbacks (callbacks (offset tok)) i tokens))"

definition remove_trailing_commas :: "'ast env \<Rightarrow> string \<Rightarrow> (error + string) option" where
  "remove_trailing_commas E contents_text =
     (case ast_parse E contents_text of
        None \<Rightarrow> Some (Inr contents_text)
      | Some ast_obj \<Rightarrow>
          render (changing_list (remove_body E contents_text (visit E ast_obj)) 0
                    (src_to_tokens E contents_text)))"

subsection \<open>\<^verbatim>\<open>_fix_src\<close>\<close>

text \<open>\<open>occurs_in p s\<close> is the substring test \<^verbatim>\<open>p in s\<close>.\<close>

fun occurs_in :: "string \<Rightarrow> string \<Rightarrow> bool" where
  "occurs_in p [] = (p = [])"
| "occurs_in p (c # s) = (prefix p (c # s) \<or> occurs_in p s)"

definition hard_coded :: "(string \<times> string) list" where
  \<open>hard_coded =
    [ (''x = ("foo"\<newline>     "bar")'', ''x = (\<newline>    "foo"\<newline>    "bar"\<newline>)''),
      (''[a()\<newline>    for b in c\<newline>    if (\<newline>        d\<newline>    )\<newline>]'',
       ''[\<newline>    a()\<newline>    for b in c\<newline>    if (\<newline>        d\<newline>    )\<newline>]''),
      (''x = [x\<newline>     for x in y()]'', ''x = [\<newline>    x\<newline>    for x in y()\<newline>]\<newline>''),
      (''x = (\<newline>    "foo"\<newline>    "bar"\<newline>    )'', ''x = (\<newline>    "foo"\<newline>    "bar"\<newline>)''),
      (''with (\<newline>    open("wat")\<newline>) as f, open("2") as f2: pass'',
       ''with (\<newline>    open("wat")\<newline>) as f, open("2") as f2: pass'') ]\<close>

text \<open>The loop over the hard-coded pairs returns at the first pattern that occurs.\<close>

definition replacement :: "string \<Rightarrow> string option" where
  "replacement contents_text =
     map_option snd (find (\<lambda>(pattern, r). occurs_in pattern contents_text) hard_coded)"

text \<open>Lines 213 to 225, what the pass of add mode does at an opening bracket.\<close>

definition add_region :: "'ast env \<Rightarrow> string \<Rightarrow> nat \<Rightarrow> token list \<Rightarrow> error + token list" where
  "add_region E contents_text i tokens =
     (if \<not> should_skip_adding_comma contents_text (find_simple E i tokens)
      then Inr (fix_brace E tokens (find_simple E i tokens) True False)
      else fix_unhugged_brace i tokens (find_simple E i tokens))"

definition add_body ::
  "'ast env \<Rightarrow> string \<Rightarrow> (offset \<Rightarrow> callback list) \<Rightarrow> nat \<Rightarrow> token \<Rightarrow> token list
     \<Rightarrow> error + token list" where
  "add_body E contents_text callbacks i tok tokens =
     (if src tok = [] then Inr tokens
      else if name tok = ''OP'' \<and> src tok \<in> START_BRACES
      then add_region E contents_text i (run_callbacks (callbacks (offset tok)) i tokens)
      else Inr (run_callbacks (callbacks (offset tok)) i tokens))"

definition fix_src :: "'ast env \<Rightarrow> string \<Rightarrow> bool \<Rightarrow> (error + string) option" where
  "fix_src E contents_text remove =
     (if remove then remove_trailing_commas E contents_text
      else
        (case replacement contents_text of
           Some r \<Rightarrow> Some (Inr r)
         | None \<Rightarrow>
             (case ast_parse E contents_text of
                None \<Rightarrow> Some (Inr contents_text)
              | Some ast_obj \<Rightarrow>
                  render (changing_list (add_body E contents_text (visit E ast_obj)) 0
                            (src_to_tokens E contents_text)))))"

subsection \<open>\<^verbatim>\<open>fix_file\<close>\<close>

text \<open>
  The files, the standard streams and the two flags that \<^verbatim>\<open>fix_file\<close> reads. A file
  that cannot be opened raises \<^verbatim>\<open>OSError\<close>. The result is the return value, read as a
  number (\<^verbatim>\<open>main\<close> combines the values with \<^verbatim>\<open>|=\<close>), and the world after the call.
\<close>

record world =
  files :: "string \<rightharpoonup> nat list"
  stdin :: "nat list"
  stdout :: string
  stderr :: string

record args =
  remove_comma :: bool
  exit_zero_even_if_changed :: bool

definition read_bytes :: "string \<Rightarrow> world \<Rightarrow> (error + nat list) \<times> world" where
  "read_bytes filename w =
     (if filename = ''-'' then (Inr (stdin w), w\<lparr>stdin := []\<rparr>)
      else (case files w filename of None \<Rightarrow> (Inl OSError, w) | Some b \<Rightarrow> (Inr b, w)))"

definition write_back :: "'ast env \<Rightarrow> string \<Rightarrow> string \<Rightarrow> string \<Rightarrow> world \<Rightarrow> world" where
  "write_back E filename contents_text contents_text_orig w =
     (if filename = ''-'' then w\<lparr>stdout := stdout w @ contents_text\<rparr>
      else if contents_text \<noteq> contents_text_orig
      then w\<lparr>stderr := stderr w @ ''Rewriting '' @ filename @ ''\<newline>'',
             files := (files w)(filename \<mapsto> encode E contents_text)\<rparr>
      else w)"

definition fix_file ::
  "'ast env \<Rightarrow> string \<Rightarrow> args \<Rightarrow> world \<Rightarrow> ((error + int) \<times> world) option" where
  "fix_file E filename a w =
     (case read_bytes filename w of
        (Inl e, w1) \<Rightarrow> Some (Inl e, w1)
      | (Inr contents_bytes, w1) \<Rightarrow>
          (case decode E contents_bytes of
             None \<Rightarrow>
               Some (Inr 1,
                 w1\<lparr>stderr := stderr w1 @ filename @ '' is non-utf-8 (not supported)\<newline>''\<rparr>)
           | Some contents_text_orig \<Rightarrow>
               (case fix_src E contents_text_orig (remove_comma a) of
                  None \<Rightarrow> None
                | Some (Inl e) \<Rightarrow> Some (Inl e, w1)
                | Some (Inr contents_text) \<Rightarrow>
                    Some (Inr (if exit_zero_even_if_changed a then 0
                               else if contents_text \<noteq> contents_text_orig then 1 else 0),
                          write_back E filename contents_text contents_text_orig w1))))"

section \<open>A front end for a fragment of the language\<close>

text \<open>
  The parser, the walker, the tokenizer and the helpers of \<^verbatim>\<open>_token_helpers.py\<close> are
  parameters of the rewriter above. This section builds one instance of them, small
  enough to run, on which the rewriter is evaluated at concrete texts.
\<close>

subsection \<open>The tokenizer\<close>

text \<open>
  Modelled from the spec: \<^verbatim>\<open>tokenize\<close> of section 4.1, which the program takes from
  the library \<^verbatim>\<open>tokenize_rt\<close> (\<^verbatim>\<open>src_to_tokens\<close>). The model covers a lexical
  fragment: names, decimal integers, operators, strings in single or double quotes
  without escapes or prefixes, comments, blanks and line ends, on logical lines that
  start in column 0. Blanks between tokens become \<^verbatim>\<open>UNIMPORTANT_WS\<close> tokens; a line end
  is \<^verbatim>\<open>NL\<close> inside brackets and on a line without code and \<^verbatim>\<open>NEWLINE\<close> elsewhere; a
  text whose last line has no line end gets a \<^verbatim>\<open>NEWLINE\<close> token with empty text; the
  list ends with \<^verbatim>\<open>ENDMARKER\<close>. On a text outside the fragment, and on one whose
  brackets do not balance, the result is \<open>None\<close>.
\<close>

datatype lexeme = LexNewline | LexBlank | LexComment | LexName | LexNumber | LexString | LexOp

definition is_blank :: "char \<Rightarrow> bool" where
  "is_blank c \<longleftrightarrow> c \<in> {CHR 0x20, CHR 0x09, CHR 0x0C}"

definition is_digit :: "char \<Rightarrow> bool" where
  "is_digit c \<longleftrightarrow> c \<in> set ''0123456789''"

definition is_name_start :: "char \<Rightarrow> bool" where
  "is_name_start c \<longleftrightarrow>
     c \<in> set ''abcdefghijklmnopqrstuvwxyzABCDEFGHIJKLMNOPQRSTUVWXYZ_''"

definition is_name_char :: "char \<Rightarrow> bool" where
  "is_name_char c \<longleftrightarrow> is_name_start c \<or> is_digit c"

definition is_quote :: "char \<Rightarrow> bool" where
  \<open>is_quote c \<longleftrightarrow> c = CHR ''"'' \<or> c = CHR 0x27\<close>

definition is_line_end :: "char \<Rightarrow> bool" where
  "is_line_end c \<longleftrightarrow> c = CHR 0x0A \<or> c = CHR 0x0D"

definition operators3 :: "string list" where
  "operators3 = [''**='', ''//='', ''>>='', ''<<='', ''...'']"

definition operators2 :: "string list" where
  "operators2 =
     [''!='', ''%='', ''&='', ''*='', ''**'', ''+='', ''-='', ''->'', ''//'', ''/='', '':='',
      ''<<'', ''<='', ''=='', ''>='', ''>>'', ''@='', ''^='', ''|='']"

definition operators1 :: "string" where
  "operators1 = ''()[]{},:.;@=+-*/%&|^~<>''"

text \<open>The longest operator at the head of the text.\<close>

definition lex_operator :: "string \<Rightarrow> string option" where
  "lex_operator s =
     (if take 3 s \<in> set operators3 then Some (take 3 s)
      else if take 2 s \<in> set operators2 then Some (take 2 s)
      else if take 1 s \<in> (\<lambda>c. [c]) ` set operators1 then Some (take 1 s)
      else None)"

text \<open>The first lexeme of a text that is not empty: its kind and its text.\<close>

definition lex1 :: "string \<Rightarrow> (lexeme \<times> string) option" where
  "lex1 s =
     (case s of
        [] \<Rightarrow> None
      | c # cs \<Rightarrow>
          if c = CHR 0x0A then Some (LexNewline, [c])
          else if c = CHR 0x0D then
            (if take 1 cs = [CHR 0x0A] then Some (LexNewline, [c, CHR 0x0A]) else None)
          else if is_blank c then
            (if dropWhile is_blank cs = [] then None else Some (LexBlank, takeWhile is_blank s))
          else if c = CHR ''#'' then Some (LexComment, takeWhile (\<lambda>x. \<not> is_line_end x) s)
          else if is_name_start c then
            (if list_ex is_quote (take 1 (dropWhile is_name_char cs)) then None
             else Some (LexName, takeWhile is_name_char s))
          else if is_digit c then
            (if list_ex (\<lambda>x. is_name_char x \<or> x = CHR ''.'') (take 1 (dropWhile is_digit cs))
             then None
             else Some (LexNumber, takeWhile is_digit s))
          else if is_quote c then
            (let body = takeWhile (\<lambda>x. x \<noteq> c \<and> x \<noteq> CHR 0x5C \<and> \<not> is_line_end x) cs;
                 rest = drop (length body) cs
             in if take 1 rest \<noteq> [c] then None
                else if body = [] \<and> take 1 (drop 1 rest) = [c] then None
                else Some (LexString, c # body @ [c]))
          else if c = CHR ''.'' \<and> list_ex is_digit (take 1 cs) then None
          else map_option (Pair LexOp) (lex_operator s))"

definition END_BRACES :: "string set" where
  "END_BRACES = {'')'', ''}'', '']''}"

text \<open>The length of the UTF-8 encoding of a text of code points below 256.\<close>

definition utf8_length :: "string \<Rightarrow> nat" where
  "utf8_length s = length s + length (filter (\<lambda>c. (127::nat) < of_char c) s)"

definition positioned :: "string \<Rightarrow> string \<Rightarrow> nat \<Rightarrow> nat \<Rightarrow> token" where
  "positioned n s l c = \<lparr>name = n, src = s, line = Some l, utf8_byte_offset = Some c\<rparr>"

text \<open>
  \<open>tokens_from fuel s l c depth code\<close>: the tokens of the rest \<open>s\<close> of the text, at line
  \<open>l\<close> and byte \<open>c\<close> of the line, inside \<open>depth\<close> brackets, \<open>code\<close> telling whether the
  logical line has a token other than a comment. Every step takes at least one
  character, so the length of the text is fuel enough; without fuel the result is
  \<open>None\<close>.
\<close>

fun tokens_from :: "nat \<Rightarrow> string \<Rightarrow> nat \<Rightarrow> nat \<Rightarrow> nat \<Rightarrow> bool \<Rightarrow> token list option" where
  "tokens_from fuel [] l c depth code =
     (if depth > 0 then None
      else if code then Some [positioned ''NEWLINE'' [] l c, positioned ''ENDMARKER'' [] (Suc l) 0]
      else Some [positioned ''ENDMARKER'' [] l 0])"
| "tokens_from 0 (x # xs) l c depth code = None"
| "tokens_from (Suc fuel) (x # xs) l c depth code =
     (case lex1 (x # xs) of
        None \<Rightarrow> None
      | Some (LexNewline, t) \<Rightarrow>
          map_option
            (Cons (positioned (if depth > 0 \<or> \<not> code then ''NL'' else ''NEWLINE'') t l c))
            (tokens_from fuel (drop (length t) (x # xs)) (Suc l) 0 depth (depth > 0 \<and> code))
      | Some (LexBlank, t) \<Rightarrow>
          if c = 0 \<and> depth = 0 \<and>
             \<not> list_ex (\<lambda>y. is_line_end y \<or> y = CHR ''#'') (take 1 (drop (length t) (x # xs)))
          then None
          else map_option (Cons (positioned ''UNIMPORTANT_WS'' t l c))
                 (tokens_from fuel (drop (length t) (x # xs)) l (c + utf8_length t) depth code)
      | Some (LexComment, t) \<Rightarrow>
          map_option (Cons (positioned ''COMMENT'' t l c))
            (tokens_from fuel (drop (length t) (x # xs)) l (c + utf8_length t) depth code)
      | Some (LexName, t) \<Rightarrow>
          map_option (Cons (positioned ''NAME'' t l c))
            (tokens_from fuel (drop (length t) (x # xs)) l (c + utf8_length t) depth True)
      | Some (LexNumber, t) \<Rightarrow>
          map_option (Cons (positioned ''NUMBER'' t l c))
            (tokens_from fuel (drop (length t) (x # xs)) l (c + utf8_length t) depth True)
      | Some (LexString, t) \<Rightarrow>
          map_option (Cons (positioned ''STRING'' t l c))
            (tokens_from fuel (drop (length t) (x # xs)) l (c + utf8_length t) depth True)
      | Some (LexOp, t) \<Rightarrow>
          if t \<in> END_BRACES \<and> depth = 0 then None
          else map_option (Cons (positioned ''OP'' t l c))
                 (tokens_from fuel (drop (length t) (x # xs)) l (c + utf8_length t)
                    (if t \<in> START_BRACES then Suc depth
                     else if t \<in> END_BRACES then depth - 1 else depth) True))"

definition tokenize :: "string \<Rightarrow> token list option" where
  "tokenize s = tokens_from (length s) s 1 0 0 False"

subsection \<open>The bracket region analyzer\<close>

text \<open>
  Modelled from the spec: \<^verbatim>\<open>find_simple\<close> of \<^verbatim>\<open>_token_helpers.py\<close>, which is not
  among the source files; section 4.3 describes it as \<^verbatim>\<open>analyze(openIndex, tokens)\<close>.
  Step 1 finds the matching close, the first closing bracket at depth 0; a close that is
  not the counterpart of the opening bracket gives no descriptor. Step 2 sets
  \<open>is_multiline\<close>, step 3 counts the top-level groups between commas that hold a token
  other than white space and comments, and step 5 sets \<open>multi_arg\<close> when the count is at
  least 1. Of step 4, an empty region gives \<open>None\<close>. A region on one line keeps its
  descriptor, with \<open>is_multiline\<close> false: the repository's test
  \<^verbatim>\<open>test_main_preserve_single_tuple_comma\<close> has the pass of remove mode rewrite the
  region \<^verbatim>\<open>(1, 2,)\<close>, which it does for a region with a descriptor only. The cases
  of step 4 that need the syntax tree (slices, exclusion by a callback) are not modelled.
\<close>

definition blank_names :: "string set" where
  "blank_names = {''UNIMPORTANT_WS'', ''NL'', ''ESCAPED_NL'', ''COMMENT''}"

fun close_offset :: "token list \<Rightarrow> nat \<Rightarrow> nat option" where
  "close_offset [] d = None"
| "close_offset (t # ts) d =
     (if src t \<in> START_BRACES then map_option Suc (close_offset ts (Suc d))
      else if src t \<in> END_BRACES then
        (case d of 0 \<Rightarrow> Some 0 | Suc d' \<Rightarrow> map_option Suc (close_offset ts d'))
      else map_option Suc (close_offset ts d))"

text \<open>
  \<open>element_count region d some\<close>: the groups of the region from here on, at depth \<open>d\<close>,
  \<open>some\<close> telling whether the group at hand holds a token that counts.
\<close>

fun element_count :: "token list \<Rightarrow> nat \<Rightarrow> bool \<Rightarrow> nat" where
  "element_count [] d some = (if some then 1 else 0)"
| "element_count (t # ts) d some =
     (if src t \<in> START_BRACES then element_count ts (Suc d) True
      else if src t \<in> END_BRACES then element_count ts (d - 1) True
      else if d = 0 \<and> src t = '','' then (if some then 1 else 0) + element_count ts 0 False
      else element_count ts d (some \<or> name t \<notin> blank_names))"

definition counterpart :: "string \<Rightarrow> string" where
  "counterpart b = (if b = ''('' then '')'' else if b = ''['' then '']'' else ''}'')"

definition analyze :: "nat \<Rightarrow> token list \<Rightarrow> Fix option" where
  "analyze first_brace tokens =
     (case close_offset (drop (Suc first_brace) tokens) 0 of
        None \<Rightarrow> None
      | Some k \<Rightarrow>
          if src (tokens ! (Suc first_brace + k)) \<noteq> counterpart (src (tokens ! first_brace))
          then None
          else if element_count (take k (drop (Suc first_brace) tokens)) 0 False = 0 then None
          else Some \<lparr>braces = (first_brace, Suc first_brace + k),
                     multi_arg =
                       (element_count (take k (drop (Suc first_brace) tokens)) 0 False \<ge> 1),
                     is_multiline =
                       list_ex (\<lambda>t. name t \<in> {''NL'', ''NEWLINE''})
                         (take k (drop (Suc first_brace) tokens))\<rparr>)"

subsection \<open>The rewrite engine of add mode\<close>

text \<open>
  Modelled from the spec: \<^verbatim>\<open>fix_brace\<close> of \<^verbatim>\<open>_token_helpers.py\<close>, which is not
  among the source files; section 4.4 describes what it does in add mode, the only mode
  in which \<^verbatim>\<open>_main.py\<close> calls it (with \<^verbatim>\<open>add_comma=True\<close> and
  \<^verbatim>\<open>remove_comma=False\<close>). For a multiline descriptor: unless the last token before
  the close that is not white space or a comment is a comma, a comma token is inserted
  right after it; then the white space that leads the line of the close, if there is
  any, becomes the indentation of the line of the opening bracket. Without a
  descriptor, and for a region on one line, the tokens stay as they are.
\<close>

text \<open>The index of the last token below \<open>j\<close> that counts, if there is one.\<close>

fun last_code :: "token list \<Rightarrow> nat \<Rightarrow> nat option" where
  "last_code tokens 0 = None"
| "last_code tokens (Suc j) =
     (if name (tokens ! j) \<in> blank_names then last_code tokens j else Some j)"

text \<open>
  The indentation of the line of a token, from the tokens before it in reverse order:
  the text of the white space that starts the line, if there is any.
\<close>

fun line_indent :: "token list \<Rightarrow> string" where
  "line_indent [] = []"
| "line_indent [t] = (if name t \<in> {''UNIMPORTANT_WS'', ''INDENT''} then src t else [])"
| "line_indent (t # u # ts) =
     (if name u \<in> {''NL'', ''NEWLINE''}
      then (if name t \<in> {''UNIMPORTANT_WS'', ''INDENT''} then src t else [])
      else line_indent (u # ts))"

definition insert_comma :: "token list \<Rightarrow> nat \<Rightarrow> bool \<Rightarrow> token list" where
  "insert_comma tokens last_brace add_comma =
     (case last_code tokens last_brace of
        None \<Rightarrow> tokens
      | Some j \<Rightarrow>
          if add_comma \<and> src (tokens ! j) \<noteq> '',''
          then take (Suc j) tokens @ Token ''OP'' '','' # drop (Suc j) tokens
          else tokens)"

definition set_indent :: "token list \<Rightarrow> nat \<Rightarrow> string \<Rightarrow> token list" where
  "set_indent tokens last_brace indent =
     (if 2 \<le> last_brace \<and> name (tokens ! (last_brace - 1)) = ''UNIMPORTANT_WS''
         \<and> name (tokens ! (last_brace - 2)) = ''NL''
      then tokens[last_brace - 1 := (tokens ! (last_brace - 1))\<lparr>src := indent\<rparr>]
      else tokens)"

definition fix_brace_spec :: "token list \<Rightarrow> Fix option \<Rightarrow> bool \<Rightarrow> bool \<Rightarrow> token list" where
  "fix_brace_spec tokens fix_data add_comma remove =
     (case fix_data of
        None \<Rightarrow> tokens
      | Some fd \<Rightarrow>
          if is_multiline fd \<and> fst (braces fd) < snd (braces fd)
             \<and> snd (braces fd) < length tokens
          then
            set_indent (insert_comma tokens (snd (braces fd)) add_comma)
              (snd (braces fd)
                 + (length (insert_comma tokens (snd (braces fd)) add_comma) - length tokens))
              (line_indent (rev (take (fst (braces fd)) tokens)))
          else tokens)"

subsection \<open>The instance\<close>

text \<open>
  Modelled from the spec: \<^verbatim>\<open>parse\<close> of section 6 (\<^verbatim>\<open>ast_parse\<close> of
  \<^verbatim>\<open>_ast_helpers.py\<close>, not among the source files), as far as the texts below need
  it: the instance accepts the texts of the lexical fragment whose brackets balance, and
  its syntax tree holds nothing. Every text it rejects for its brackets is a syntax
  error of the language. Its walker registers no callback.
\<close>

definition parse :: "string \<Rightarrow> unit option" where
  "parse s = (case tokenize s of None \<Rightarrow> None | Some ts \<Rightarrow> Some ())"

text \<open>The instance decodes and encodes the bytes below 128, on which UTF-8 is ASCII.\<close>

definition decode_ascii :: "nat list \<Rightarrow> string option" where
  "decode_ascii bs = (if list_all (\<lambda>b. b < 128) bs then Some (map char_of bs) else None)"

definition front_end :: "unit env" where
  "front_end =
     \<lparr>ast_parse = parse,
      visit = (\<lambda>ast_obj off. []),
      src_to_tokens = (\<lambda>s. case tokenize s of None \<Rightarrow> [] | Some ts \<Rightarrow> ts),
      find_simple = analyze,
      fix_brace = fix_brace_spec,
      decode = decode_ascii,
      encode = map of_char\<rparr>"

section \<open>Running the rewriter\<close>

text \<open>One turn of the loop, and its end.\<close>

lemma changing_list_step:
  "i < length lst \<Longrightarrow>
   changing_list body i lst =
     (case body i (lst ! i) lst of
        Inl e \<Rightarrow> Some (Inl e)
      | Inr lst' \<Rightarrow> changing_list body (Suc i) lst')"
  by (subst changing_list.simps) simp

lemma changing_list_stop: "\<not> i < length lst \<Longrightarrow> changing_list body i lst = Some (Inr lst)"
  by (subst changing_list.simps) simp

lemmas lex_defs =
  tokenize_def lex1_def is_blank_def is_digit_def is_name_start_def is_name_char_def
  is_quote_def is_line_end_def lex_operator_def operators1_def operators2_def operators3_def
  positioned_def START_BRACES_def END_BRACES_def utf8_length_def

lemmas pass_defs =
  render_def remove_body_def add_body_def remove_region_def add_region_def run_callbacks_def
  offset_def changing_list_step changing_list_stop should_skip_adding_comma_def
  test_patterns_def is_space_def is_single_element_tuple_def count_args.simps
  skip_to_comma.simps at_def tuple_operator_contexts_def is_tuple_context_def
  is_import_context_def is_function_context_def delete_trailing_comma_def
  fix_unhugged_brace_def py_index_def py_assign_def Token_def tokens_to_src_def
  START_BRACES_def

lemmas front_end_defs =
  front_end_def parse_def analyze_def counterpart_def blank_names_def END_BRACES_def
  fix_brace_spec_def insert_comma_def set_indent_def decode_ascii_def

lemmas model_defs =
  fix_src_def remove_trailing_commas_def replacement_def hard_coded_def pass_defs
  front_end_defs positioned_def

section \<open>Bytes that do not decode\<close>

text \<open>
  C10: \<^verbatim>\<open>fix_file\<close> returns 1 for a file whose bytes do not decode and leaves the
  file as it is, also when \<^verbatim>\<open>--exit-zero-even-if-changed\<close> is set: the return comes
  before the flag is read. Only the message on the error stream is new.
\<close>

theorem fix_file_non_utf8:
  assumes "filename \<noteq> ''-''" and "files w filename = Some contents_bytes"
    and "decode E contents_bytes = None"
  shows "fix_file E filename a w =
           Some (Inr 1, w\<lparr>stderr := stderr w @ filename @ '' is non-utf-8 (not supported)\<newline>''\<rparr>)
         \<and> fix_file E filename (a\<lparr>exit_zero_even_if_changed := True\<rparr>) w =
           Some (Inr 1, w\<lparr>stderr := stderr w @ filename @ '' is non-utf-8 (not supported)\<newline>''\<rparr>)
         \<and> files (w\<lparr>stderr := stderr w @ filename @ '' is non-utf-8 (not supported)\<newline>''\<rparr>)
             = files w"
  using assms by (simp add: fix_file_def read_bytes_def)

text \<open>
  The file of \<^verbatim>\<open>test_main_non_utf8_bytes\<close> in short: \<^verbatim>\<open>x = \<close> and the byte 0x80,
  the euro sign of cp1252, which no UTF-8 text holds on its own.
\<close>

definition cp1252_file :: world where
  "cp1252_file =
     \<lparr>files = [''f.py'' \<mapsto> [0x78, 0x20, 0x3D, 0x20, 0x80, 0x0A]], stdin = [], stdout = [],
      stderr = []\<rparr>"

theorem fix_file_non_utf8_witness:
  "''f.py'' \<noteq> ''-'' \<and> files cp1252_file ''f.py'' = Some [0x78, 0x20, 0x3D, 0x20, 0x80, 0x0A]
   \<and> decode front_end [0x78, 0x20, 0x3D, 0x20, 0x80, 0x0A] = None
   \<and> fix_file front_end ''f.py'' \<lparr>remove_comma = False, exit_zero_even_if_changed = True\<rparr>
        cp1252_file
      = Some (Inr 1, cp1252_file\<lparr>stderr := ''f.py is non-utf-8 (not supported)\<newline>''\<rparr>)"
proof -
  have f: "files cp1252_file ''f.py'' = Some [0x78, 0x20, 0x3D, 0x20, 0x80, 0x0A]"
    by (simp add: cp1252_file_def)
  have d: "decode front_end [0x78, 0x20, 0x3D, 0x20, 0x80, 0x0A] = None"
    by (simp add: front_end_def decode_ascii_def)
  have n: "''f.py'' \<noteq> ''-''" by simp
  show ?thesis
    using fix_file_non_utf8
      [OF n f d, of "\<lparr>remove_comma = False, exit_zero_even_if_changed = True\<rparr>"] f d
    by (simp add: cp1252_file_def)
qed

section \<open>A text that does not parse\<close>

text \<open>
  C1, as amended: for a text that does not parse, remove mode returns the text as it
  is. Add mode looks for the five hard-coded patterns before it parses: it returns the
  text as it is when none of them occurs in it, and the replacement of the first one
  that occurs otherwise.
\<close>

theorem parse_failure_noop:
  assumes "ast_parse E s = None"
  shows "fix_src E s True = Some (Inr s)
         \<and> fix_src E s False = Some (Inr (case replacement s of None \<Rightarrow> s | Some r \<Rightarrow> r))"
  using assms by (simp add: fix_src_def remove_trailing_commas_def split: option.split)

theorem parse_failure_noop_witness:
  "ast_parse front_end ''print((1, 2)\<newline>'' = None
   \<and> fix_src front_end ''print((1, 2)\<newline>'' True = Some (Inr ''print((1, 2)\<newline>'')
   \<and> fix_src front_end ''print((1, 2)\<newline>'' False = Some (Inr ''print((1, 2)\<newline>'')"
proof -
  have p: "ast_parse front_end ''print((1, 2)\<newline>'' = None"
    by (simp add: front_end_def parse_def lex_defs)
  have r: "replacement ''print((1, 2)\<newline>'' = None"
    by (simp add: replacement_def hard_coded_def)
  show ?thesis using parse_failure_noop [OF p] p r by simp
qed

text \<open>
  C1 as stated fails in add mode: a text with an unmatched closing parenthesis, which
  does not parse, holds the first hard-coded pattern and comes back as its replacement.
\<close>

theorem parse_failure_noop_counterexample:
  \<open>ast_parse front_end ''x = ("foo"\<newline>     "bar"))\<newline>'' = None
   \<and> fix_src front_end ''x = ("foo"\<newline>     "bar"))\<newline>'' False
       = Some (Inr ''x = (\<newline>    "foo"\<newline>    "bar"\<newline>)'')
   \<and> fix_src front_end ''x = ("foo"\<newline>     "bar"))\<newline>'' False
       \<noteq> Some (Inr ''x = ("foo"\<newline>     "bar"))\<newline>'')\<close>
  by (simp add: fix_src_def replacement_def hard_coded_def front_end_def parse_def lex_defs)

section \<open>Single-element tuples\<close>











section \<open>Add mode on a multiline call\<close>





section \<open>Remove mode, run twice\<close>




section \<open>Remove mode on a region on one line\<close>



section \<open>White space in remove mode\<close>



section \<open>What the rewriter leaves as it is\<close>


section \<open>The context of a single-element tuple\<close>










subsection \<open>A tuple inside a set\<close>

text \<open>The tokens of \<^verbatim>\<open>x = {(1,)}\<close> with its line end.\<close>

definition set_tuple_tokens :: "token list" where
  "set_tuple_tokens =
     [positioned ''NAME'' ''x'' 1 0, positioned ''UNIMPORTANT_WS'' '' '' 1 1,
      positioned ''OP'' ''='' 1 2, positioned ''UNIMPORTANT_WS'' '' '' 1 3,
      positioned ''OP'' ''{'' 1 4, positioned ''OP'' ''('' 1 5,
      positioned ''NUMBER'' ''1'' 1 6, positioned ''OP'' '','' 1 7,
      positioned ''OP'' '')'' 1 8, positioned ''OP'' ''}'' 1 9,
      positioned ''NEWLINE'' ''\<newline>'' 1 10, positioned ''ENDMARKER'' [] 2 0]"

lemma tokenize_set_tuple: "tokenize ''x = {(1,)}\<newline>'' = Some set_tuple_tokens"
  by (simp add: lex_defs set_tuple_tokens_def)

text \<open>
  C6 as stated fails: the one-element tuple of \<^verbatim>\<open>x = {(1,)}\<close> comes right after the
  opening bracket \<^verbatim>\<open>{\<close> of a set, in no import and no definition, and is not classified
  as a tuple; remove mode deletes its comma.
\<close>

theorem tuple_context_counterexample:
  "src (set_tuple_tokens ! 5) = ''(''
   \<and> count_args set_tuple_tokens 8 (Suc 5) 0 = Inr 1
   \<and> walk_back set_tuple_tokens 5 (8 - 1) = Inr 7
   \<and> src (set_tuple_tokens ! 7) = '',''
   \<and> scan_back set_tuple_tokens 5 = Inr (Some 4)
   \<and> src (set_tuple_tokens ! 4) = ''{''
   \<and> \<not> is_import_context set_tuple_tokens 4
   \<and> \<not> is_function_context set_tuple_tokens 4
   \<and> is_single_element_tuple set_tuple_tokens 5 8 = Inr False
   \<and> fix_src front_end ''x = {(1,)}\<newline>'' True = Some (Inr ''x = {(1)}\<newline>'')"
proof (intro conjI)
  show "src (set_tuple_tokens ! 5) = ''(''"
    and "src (set_tuple_tokens ! 7) = '',''"
    and "src (set_tuple_tokens ! 4) = ''{''"
    and "\<not> is_import_context set_tuple_tokens 4"
    and "\<not> is_function_context set_tuple_tokens 4"
    by (simp_all add: is_import_context_def is_function_context_def set_tuple_tokens_def
        positioned_def)
  show "count_args set_tuple_tokens 8 (Suc 5) 0 = Inr 1"
    by (simp add: count_args.simps skip_to_comma.simps at_def set_tuple_tokens_def
        positioned_def)
  show "walk_back set_tuple_tokens 5 (8 - 1) = Inr 7"
    by (simp add: eval_nat_numeral at_def set_tuple_tokens_def positioned_def)
  show "scan_back set_tuple_tokens 5 = Inr (Some 4)"
    by (simp add: eval_nat_numeral at_def set_tuple_tokens_def positioned_def)
  show "is_single_element_tuple set_tuple_tokens 5 8 = Inr False"
    by (simp add: pass_defs set_tuple_tokens_def positioned_def eval_nat_numeral)
  show "fix_src front_end ''x = {(1,)}\<newline>'' True = Some (Inr ''x = {(1)}\<newline>'')"
    by (simp add: model_defs tokenize_set_tuple set_tuple_tokens_def)
qed

section \<open>Which regions lose a comma\<close>










section \<open>Properties of the pass\<close>


lemma run_callbacks_none [simp]: "run_callbacks [] i tokens = tokens"
  by (simp add: run_callbacks_def)


section \<open>A text that matches a skip pattern\<close>













section \<open>What remove mode changes\<close>
















section \<open>The tokens that both modes keep\<close>















end
